theory Spec2Isabelle
  imports Complex_Main "HOL-Library.Log_Nat" "HOL-Library.Sublist"
begin

section \<open>The quantization script \<^verbatim>\<open>scripts/quantize_model.py\<close>\<close>

text \<open>
  The script has one function, \<^verbatim>\<open>main\<close>. It imports the quantization library, resolves
  the model paths from the location of the script, checks that the input model exists,
  calls the library's \<^verbatim>\<open>quantize_dynamic\<close> once and reports the sizes of both files.

  What the script reads from its surroundings is collected in the record \<open>env\<close>; what a
  run leaves behind (exit status, the lines printed, the calls made to the library and the
  file system at the end) is the record \<open>run\<close>. Strings are byte strings: the text
  written to standard output in UTF-8, and POSIX paths.
\<close>

subsection \<open>Python floats\<close>

text \<open>
  A Python float is an IEEE 754 double. A finite double is a rational number, and every
  arithmetic operation returns the exact result rounded to the nearest double, ties to the
  even significand. \<open>fl\<close> is that rounding for 53 significant bits. The exponent range is
  not bounded in the model: the values of this script are quotients and differences of file
  sizes, far from overflow and from the subnormal range. No operation of the script yields
  a negative zero.
\<close>

type_synonym pyfloat = rat

definition round_half_even :: "rat \<Rightarrow> int" where
  "round_half_even x =
     (let f = \<lfloor>x\<rfloor>; d = x - of_int f
      in if d < 1 / 2 then f else if 1 / 2 < d then f + 1 else if even f then f else f + 1)"

text \<open>\<open>binexp x\<close> is the binary exponent of \<open>x \<noteq> 0\<close>: \<open>2 ^ e \<le> \<bar>x\<bar> < 2 ^ (e + 1)\<close>.\<close>

definition binexp :: "rat \<Rightarrow> int" where
  "binexp x =
     (case quotient_of \<bar>x\<bar> of (a, b) \<Rightarrow>
        let e = bitlen a - bitlen b in if 2 powi e \<le> \<bar>x\<bar> then e else e - 1)"

definition fl :: "rat \<Rightarrow> pyfloat" where
  "fl x = (if x = 0 then 0
           else let ulp = 2 powi (binexp x - 52)
                in of_int (round_half_even (x / ulp)) * ulp)"

subsection \<open>Exceptions\<close>

text \<open>
  The exceptions that can reach the handler \<^verbatim>\<open>except Exception as e\<close>: whatever the
  library raises (known to the script only through its text \<^verbatim>\<open>str(e)\<close>), the
  \<^verbatim>\<open>FileNotFoundError\<close> of \<^verbatim>\<open>os.path.getsize\<close> on a missing path, and the
  \<^verbatim>\<open>ZeroDivisionError\<close> of a float division by \<open>0.0\<close>.
\<close>

datatype py_exception =
    LibraryError string
  | FileNotFoundError string
  | ZeroDivisionError

text \<open>
  \<^verbatim>\<open>repr\<close> of a string. The quote is the single quote, unless the string holds a single
  quote and no double quote. The quote and the backslash are escaped with a backslash, tab,
  newline and carriage return are written \<^verbatim>\<open>\t\<close>, \<^verbatim>\<open>\n\<close>, \<^verbatim>\<open>\r\<close>, and the other ASCII
  control characters \<^verbatim>\<open>\xhh\<close>. The bytes above \<open>0x7F\<close> are taken to encode printable
  characters, which \<^verbatim>\<open>repr\<close> leaves as they are.
\<close>

definition hex_digit :: "nat \<Rightarrow> char" where
  "hex_digit n = ''0123456789abcdef'' ! (n mod 16)"

definition repr_char :: "char \<Rightarrow> char \<Rightarrow> string" where
  "repr_char quote c =
     (if c = quote \<or> c = CHR 0x5C then [CHR 0x5C, c]
      else if c = CHR 0x09 then [CHR 0x5C, CHR ''t'']
      else if c = CHR 0x0A then [CHR 0x5C, CHR ''n'']
      else if c = CHR 0x0D then [CHR 0x5C, CHR ''r'']
      else if (of_char c :: nat) < 32 \<or> c = CHR 0x7F
        then [CHR 0x5C, CHR ''x'', hex_digit (of_char c div 16), hex_digit (of_char c mod 16)]
      else [c])"

definition py_repr :: "string \<Rightarrow> string" where
  "py_repr s =
     (let quote = (if CHR 0x27 \<in> set s \<and> CHR 0x22 \<notin> set s then CHR 0x22 else CHR 0x27)
      in [quote] @ concat (map (repr_char quote) s) @ [quote])"

text \<open>
  \<^verbatim>\<open>str(e)\<close>, which the f-string \<^verbatim>\<open>{e}\<close> prints. For the \<^verbatim>\<open>FileNotFoundError\<close> CPython
  shows the error number, its message and \<^verbatim>\<open>repr\<close> of the path.
\<close>

fun str_exception :: "py_exception \<Rightarrow> string" where
  "str_exception (LibraryError msg) = msg"
| "str_exception (FileNotFoundError p) =
     ''[Errno 2] No such file or directory: '' @ py_repr p"
| "str_exception ZeroDivisionError = ''float division by zero''"

definition float_div :: "pyfloat \<Rightarrow> pyfloat \<Rightarrow> py_exception + pyfloat" where
  "float_div a b = (if b = 0 then Inl ZeroDivisionError else Inr (fl (a / b)))"

definition float_sub :: "pyfloat \<Rightarrow> pyfloat \<Rightarrow> pyfloat" where
  "float_sub a b = fl (a - b)"

definition float_mul :: "pyfloat \<Rightarrow> pyfloat \<Rightarrow> pyfloat" where
  "float_mul a b = fl (a * b)"

text \<open>
  \<^verbatim>\<open>n / (1024 * 1024)\<close> on a Python int: true division, correctly rounded. The divisor
  is a non-zero literal.
\<close>

definition bytes_to_mb :: "nat \<Rightarrow> pyfloat" where
  "bytes_to_mb n = fl (of_nat n / (1024 * 1024))"

subsection \<open>Formatting\<close>

fun str_nat :: "nat \<Rightarrow> string" where
  "str_nat n = (if n < 10 then [char_of (48 + n)]
                else str_nat (n div 10) @ [char_of (48 + n mod 10)])"

text \<open>
  \<^verbatim>\<open>format(x, '.pf')\<close>: the decimal expansion of the float rounded to \<open>p\<close> places, ties
  to even on the exact value. \<open>scaled_digits p x\<close> is the rounded magnitude in units of
  \<open>10 ^ - p\<close>.
\<close>

definition scaled_digits :: "nat \<Rightarrow> pyfloat \<Rightarrow> nat" where
  "scaled_digits p x = nat (round_half_even (\<bar>x\<bar> * 10 ^ p))"

definition format_f :: "nat \<Rightarrow> pyfloat \<Rightarrow> string" where
  "format_f p x =
     (let t = scaled_digits p x; frac = str_nat (t mod 10 ^ p)
      in (if x < 0 then ''-'' else '''') @ str_nat (t div 10 ^ p) @
         (if p = 0 then '''' else ''.'' @ replicate (p - length frac) (CHR ''0'') @ frac))"

subsection \<open>Paths (\<^verbatim>\<open>posixpath\<close>)\<close>

definition sep :: char where
  "sep = CHR ''/''"

text \<open>
  \<^verbatim>\<open>dirname\<close>: the head is the path up to and including its last separator; trailing
  separators are stripped from it unless it consists of separators only.
\<close>

definition dirname :: "string \<Rightarrow> string" where
  "dirname p =
     (let head = rev (dropWhile (\<lambda>c. c \<noteq> sep) (rev p))
      in if head \<noteq> [] \<and> head \<noteq> replicate (length head) sep
         then rev (dropWhile (\<lambda>c. c = sep) (rev head))
         else head)"

text \<open>\<^verbatim>\<open>join(a, *p)\<close>: the loop over the components, left to right.\<close>

fun join_path :: "string \<Rightarrow> string list \<Rightarrow> string" where
  "join_path path [] = path"
| "join_path path (b # bs) =
     join_path
       (if b \<noteq> [] \<and> hd b = sep then b
        else if path = [] \<or> last path = sep then path @ b
        else path @ [sep] @ b) bs"

subsection \<open>The file system and the library\<close>

text \<open>A file system maps a path to the bytes stored there, if anything is.\<close>

type_synonym filesystem = "string \<Rightarrow> string option"

definition path_exists :: "filesystem \<Rightarrow> string \<Rightarrow> bool" where
  "path_exists fs p = (fs p \<noteq> None)"

definition getsize :: "filesystem \<Rightarrow> string \<Rightarrow> py_exception + nat" where
  "getsize fs p = (case fs p of None \<Rightarrow> Inl (FileNotFoundError p) | Some b \<Rightarrow> Inr (length b))"

text \<open>\<^verbatim>\<open>onnxruntime.quantization.QuantType\<close>, the two 8-bit members.\<close>

datatype QuantType = QInt8 | QUInt8

text \<open>
  The environment of a run:
  \<^item> \<open>import_ok\<close>: both imports of lines 17 and 18 succeed (otherwise \<^verbatim>\<open>ImportError\<close>);
  \<^item> \<open>script_path\<close>: \<^verbatim>\<open>os.path.abspath(__file__)\<close>;
  \<^item> \<open>files\<close>: the file system when the run starts; nothing but the run changes it;
  \<^item> \<open>quantize_dynamic\<close>: the library's routine. Given the file system and its three
    arguments it leaves a file system and either returns (\<open>None\<close>) or raises an exception
    whose text is \<open>msg\<close> (\<open>Some msg\<close>). Nothing else is assumed about it. What it raises is
    an instance of \<^verbatim>\<open>Exception\<close>, the class the handler of line 64 names; an interrupt of the
    process is not a behaviour of the routine.

  The result of a run: its exit status, the strings printed (one for each \<^verbatim>\<open>print\<close>;
  standard output takes UTF-8), the calls of the library with their arguments, and the file
  system the run leaves.
\<close>

record env =
  import_ok :: bool
  script_path :: string
  files :: filesystem
  quantize_dynamic ::
    "filesystem \<Rightarrow> string \<Rightarrow> string \<Rightarrow> QuantType \<Rightarrow> string option \<times> filesystem"

record run =
  exit_code :: int
  stdout :: "string list"
  quant_calls :: "(string \<times> string \<times> QuantType) list"
  files_after :: filesystem

text \<open>The bytes written to standard output: \<^verbatim>\<open>print\<close> ends each string with a newline.\<close>

definition stdout_text :: "run \<Rightarrow> string" where
  "stdout_text r = concat (map (\<lambda>s. s @ [CHR 0x0A]) (stdout r))"

subsection \<open>\<^verbatim>\<open>main\<close>\<close>

text \<open>The symbols of the messages, in UTF-8.\<close>

definition cross_mark :: string where
  "cross_mark = [CHR 0xE2, CHR 0x9D, CHR 0x8C]"

definition inbox_tray :: string where
  "inbox_tray = [CHR 0xF0, CHR 0x9F, CHR 0x93, CHR 0xA5]"

definition hourglass :: string where
  "hourglass = [CHR 0xE2, CHR 0x8F, CHR 0xB3]"

definition check_mark :: string where
  "check_mark = [CHR 0xE2, CHR 0x9C, CHR 0x85]"

definition outbox_tray :: string where
  "outbox_tray = [CHR 0xF0, CHR 0x9F, CHR 0x93, CHR 0xA4]"

definition party_popper :: string where
  "party_popper = [CHR 0xF0, CHR 0x9F, CHR 0x8E, CHR 0x89]"

text \<open>Lines 25 to 30: the paths, from the absolute path of the script.\<close>

definition script_dir :: "env \<Rightarrow> string" where
  "script_dir e = dirname (script_path e)"

definition project_root :: "env \<Rightarrow> string" where
  "project_root e = dirname (script_dir e)"

definition models_dir :: "env \<Rightarrow> string" where
  "models_dir e = join_path (project_root e) [''app'', ''src'', ''main'', ''assets'', ''models'']"

definition input_model :: "env \<Rightarrow> string" where
  "input_model e = join_path (models_dir e) [''comictextdetector.pt.onnx'']"

definition output_model :: "env \<Rightarrow> string" where
  "output_model e = join_path (models_dir e) [''comictextdetector_quantized.onnx'']"

text \<open>Lines 20 and 21, and lines 34 to 38.\<close>

definition missing_packages_lines :: "string list" where
  "missing_packages_lines =
     [cross_mark @ '' Missing required packages. Install them with:'',
      ''   pip install onnxruntime onnx'']"

definition download_url :: string where
  "download_url = ''https://github.com/zyddnys/manga-image-translator/releases''"

definition input_missing_lines :: "env \<Rightarrow> string list" where
  "input_missing_lines e =
     [cross_mark @ '' Input model not found: '' @ input_model e,
      [CHR 0x0A] @ ''Please download the model first:'',
      ''1. Go to: '' @ download_url,
      ''2. Download: comictextdetector.pt.onnx'',
      ''3. Place it in: '' @ models_dir e]"

text \<open>Lines 42 to 45.\<close>

definition input_report_lines :: "env \<Rightarrow> pyfloat \<Rightarrow> string list" where
  "input_report_lines e input_size =
     [inbox_tray @ '' Input model: '' @ input_model e,
      ''   Size: '' @ format_f 1 input_size @ '' MB'',
      [CHR 0x0A] @ hourglass @ '' Quantizing model (this may take a few minutes)...'']"

text \<open>Lines 58 to 62.\<close>

definition success_lines :: "env \<Rightarrow> pyfloat \<Rightarrow> pyfloat \<Rightarrow> string list" where
  "success_lines e output_size reduction =
     [[CHR 0x0A] @ check_mark @ '' Quantization complete!'',
      outbox_tray @ '' Output model: '' @ output_model e,
      ''   Size: '' @ format_f 1 output_size @ '' MB'',
      ''   Reduction: '' @ format_f 0 reduction @ ''%'',
      [CHR 0x0A] @ party_popper @ '' The app will automatically use the quantized model!'']"

text \<open>Line 65.\<close>

definition failure_line :: "py_exception \<Rightarrow> string" where
  "failure_line ex = [CHR 0x0A] @ cross_mark @ '' Quantization failed: '' @ str_exception ex"

text \<open>
  Lines 55 and 56, after the library has returned: the size of the output file and the
  reduction. Either may raise.
\<close>

definition measure_output :: "filesystem \<Rightarrow> string \<Rightarrow> pyfloat \<Rightarrow> py_exception + pyfloat \<times> pyfloat" where
  "measure_output fs out_path input_size =
     (case getsize fs out_path of
        Inl ex \<Rightarrow> Inl ex
      | Inr n \<Rightarrow>
          let output_size = bytes_to_mb n
          in (case float_div output_size input_size of
                Inl ex \<Rightarrow> Inl ex
              | Inr q \<Rightarrow> Inr (output_size, float_mul (float_sub 1 q) 100)))"

text \<open>
  The body of the \<^verbatim>\<open>try\<close>, lines 49 to 56: the call of the library, then the
  measurement. The result is the exception that reaches the handler, or the two values
  printed, together with the file system the library left.
\<close>

definition try_body :: "env \<Rightarrow> pyfloat \<Rightarrow> (py_exception + pyfloat \<times> pyfloat) \<times> filesystem" where
  "try_body e input_size =
     (case quantize_dynamic e (files e) (input_model e) (output_model e) QUInt8 of
        (Some msg, fs') \<Rightarrow> (Inl (LibraryError msg), fs')
      | (None, fs') \<Rightarrow> (measure_output fs' (output_model e) input_size, fs'))"

text \<open>
  \<^verbatim>\<open>main\<close>. A run ends with status 1 at each \<^verbatim>\<open>sys.exit(1)\<close>, and with status 0 when
  \<^verbatim>\<open>main\<close> returns. The \<^verbatim>\<open>getsize\<close> of line 41 stands outside the \<^verbatim>\<open>try\<close>: an
  exception there would end the run with a traceback and status 1.
\<close>

definition main :: "env \<Rightarrow> run" where
  "main e =
     (if \<not> import_ok e then
        \<lparr>exit_code = 1, stdout = missing_packages_lines, quant_calls = [],
         files_after = files e\<rparr>
      else if \<not> path_exists (files e) (input_model e) then
        \<lparr>exit_code = 1, stdout = input_missing_lines e, quant_calls = [],
         files_after = files e\<rparr>
      else
        (case getsize (files e) (input_model e) of
           Inl ex \<Rightarrow>
             \<lparr>exit_code = 1, stdout = [], quant_calls = [], files_after = files e\<rparr>
         | Inr n \<Rightarrow>
             let input_size = bytes_to_mb n;
                 call = (input_model e, output_model e, QUInt8)
             in (case try_body e input_size of
                   (Inl ex, fs') \<Rightarrow>
                     \<lparr>exit_code = 1,
                      stdout = input_report_lines e input_size @ [failure_line ex],
                      quant_calls = [call], files_after = fs'\<rparr>
                 | (Inr (output_size, reduction), fs') \<Rightarrow>
                     \<lparr>exit_code = 0,
                      stdout = input_report_lines e input_size @
                               success_lines e output_size reduction,
                      quant_calls = [call], files_after = fs'\<rparr>)))"

subsection \<open>Outcomes of a run\<close>

text \<open>The one call of the library that \<^verbatim>\<open>main\<close> makes, with its result.\<close>

definition library_call :: "env \<Rightarrow> string option \<times> filesystem" where
  "library_call e = quantize_dynamic e (files e) (input_model e) (output_model e) QUInt8"

text \<open>
  The outcomes the specification names, in terms of the environment alone. A run succeeds
  when the library is there, the input model is there and not empty, the library returns
  and the output model is there afterwards. The quantization step fails when the library
  was called and it raised, left no output model, or the input model was empty.
\<close>

definition run_succeeds :: "env \<Rightarrow> bool" where
  "run_succeeds e \<longleftrightarrow>
     import_ok e \<and>
     (case files e (input_model e) of
        None \<Rightarrow> False
      | Some b \<Rightarrow>
          b \<noteq> [] \<and>
          (case library_call e of
             (Some msg, fs') \<Rightarrow> False
           | (None, fs') \<Rightarrow> fs' (output_model e) \<noteq> None))"

definition quantization_fails :: "env \<Rightarrow> bool" where
  "quantization_fails e \<longleftrightarrow>
     import_ok e \<and>
     (case files e (input_model e) of
        None \<Rightarrow> False
      | Some b \<Rightarrow>
          (case library_call e of
             (Some msg, fs') \<Rightarrow> True
           | (None, fs') \<Rightarrow> fs' (output_model e) = None \<or> b = []))"

subsection \<open>Sample environments\<close>

text \<open>
  A checkout at \<^verbatim>\<open>/repo\<close>, files of \<open>n\<close> zero bytes, and three behaviours of the
  library: it writes an output of \<open>m\<close> bytes, it returns without writing, it raises.
\<close>

definition repo_script :: string where
  "repo_script = ''/repo/scripts/quantize_model.py''"

definition repo_input :: string where
  "repo_input = ''/repo/app/src/main/assets/models/comictextdetector.pt.onnx''"

definition repo_output :: string where
  "repo_output = ''/repo/app/src/main/assets/models/comictextdetector_quantized.onnx''"

definition zero_bytes :: "nat \<Rightarrow> string" where
  "zero_bytes n = replicate n (CHR 0x00)"

definition only_input :: "nat \<Rightarrow> filesystem" where
  "only_input n = (\<lambda>p. if p = repo_input then Some (zero_bytes n) else None)"

definition no_files :: filesystem where
  "no_files = (\<lambda>p. None)"

definition writes_output ::
  "nat \<Rightarrow> filesystem \<Rightarrow> string \<Rightarrow> string \<Rightarrow> QuantType \<Rightarrow> string option \<times> filesystem" where
  "writes_output m fs inp out wt = (None, (\<lambda>p. if p = out then Some (zero_bytes m) else fs p))"

definition writes_nothing ::
  "filesystem \<Rightarrow> string \<Rightarrow> string \<Rightarrow> QuantType \<Rightarrow> string option \<times> filesystem" where
  "writes_nothing fs inp out wt = (None, fs)"

definition raises ::
  "string \<Rightarrow> filesystem \<Rightarrow> string \<Rightarrow> string \<Rightarrow> QuantType \<Rightarrow> string option \<times> filesystem" where
  "raises msg fs inp out wt = (Some msg, fs)"

definition repo_env ::
  "bool \<Rightarrow> filesystem \<Rightarrow>
   (filesystem \<Rightarrow> string \<Rightarrow> string \<Rightarrow> QuantType \<Rightarrow> string option \<times> filesystem) \<Rightarrow> env" where
  "repo_env ok fs q =
     \<lparr>import_ok = ok, script_path = repo_script, files = fs, quantize_dynamic = q\<rparr>"

section \<open>Properties\<close>

subsection \<open>The library functions on examples\<close>

text \<open>The values CPython 3.11 gives for the same arguments.\<close>

lemma dirname_examples:
  "dirname ''/'' = ''/''" "dirname ''/a'' = ''/''" "dirname ''a'' = ''''"
  "dirname ''/a//b'' = ''/a''" "dirname ''//'' = ''//''"
  "dirname ''/repo/scripts/quantize_model.py'' = ''/repo/scripts''"
  by code_simp+

lemma join_path_examples:
  "join_path ''/'' [''app''] = ''/app''" "join_path '''' [''app''] = ''app''"
  "join_path ''/r/'' [''app'', ''src''] = ''/r/app/src''"
  "join_path ''/r'' [''/abs'', ''x''] = ''/abs/x''"
  by code_simp+

lemma format_f_examples:
  "format_f 1 (1 / 4) = ''0.2''" "format_f 1 (- 1 / 25) = ''-0.0''"
  "format_f 0 (- 1 / 2) = ''-0''" "format_f 0 (149 / 2) = ''74''" "format_f 0 (3 / 2) = ''2''"
  "format_f 1 (8999 / 100) = ''90.0''"
  by code_simp+

lemma py_repr_examples:
  "py_repr ''/a/b'' = [CHR 0x27] @ ''/a/b'' @ [CHR 0x27]"
  "py_repr (''/x'' @ [CHR 0x27] @ ''y'') = [CHR 0x22] @ ''/x'' @ [CHR 0x27] @ ''y'' @ [CHR 0x22]"
  "py_repr (''/x'' @ [CHR 0x22] @ ''y'') = [CHR 0x27] @ ''/x'' @ [CHR 0x22] @ ''y'' @ [CHR 0x27]"
  "py_repr (''/x'' @ [CHR 0x27, CHR 0x22] @ ''y'') =
     [CHR 0x27] @ ''/x'' @ [CHR 0x5C, CHR 0x27, CHR 0x22] @ ''y'' @ [CHR 0x27]"
  "py_repr (''/a'' @ [CHR 0x5C] @ ''b'') = [CHR 0x27] @ ''/a'' @ [CHR 0x5C, CHR 0x5C] @ ''b'' @ [CHR 0x27]"
  "py_repr (''/a'' @ [CHR 0x09] @ ''b'' @ [CHR 0x0A] @ ''c'' @ [CHR 0x0D] @ ''d'' @ [CHR 0x01, CHR 0x7F]) =
     [CHR 0x27] @ ''/a'' @ [CHR 0x5C] @ ''tb'' @ [CHR 0x5C] @ ''nc'' @ [CHR 0x5C] @ ''rd'' @
     [CHR 0x5C] @ ''x01'' @ [CHR 0x5C] @ ''x7f'' @ [CHR 0x27]"
  "py_repr (''/caf'' @ [CHR 0xC3, CHR 0xA9]) = [CHR 0x27] @ ''/caf'' @ [CHR 0xC3, CHR 0xA9, CHR 0x27]"
  "str_exception (FileNotFoundError ''/repo/out.onnx'') =
     ''[Errno 2] No such file or directory: '' @ [CHR 0x27] @ ''/repo/out.onnx'' @ [CHR 0x27]"
  by code_simp+

lemma fl_examples:
  "fl (1 / 10) = 3602879701896397 / 36028797018963968"
  "fl (199 / 200) = 8962163258467287 / 9007199254740992"
  "float_mul (float_sub 1 (fl (199 / 200))) 100 = 1125899906842625 / 2251799813685248"
  "format_f 0 (float_mul (float_sub 1 (fl (199 / 200))) 100) = ''1''"
  by code_simp+

subsection \<open>The float model\<close>

lemma bitlen_powi_bounds:
  assumes "0 < a"
  shows "(2::rat) powi (bitlen a - 1) \<le> of_int a" and "of_int a < (2::rat) powi (bitlen a)"
proof -
  from assms have b1: "1 \<le> bitlen a"
    by (simp add: bitlen_alt_def)
  from bitlen_bounds[OF assms]
  have lo: "2 ^ nat (bitlen a - 1) \<le> a" and hi: "a < 2 ^ nat (bitlen a)" by auto
  have "(2::rat) powi (bitlen a - 1) = of_int (2 ^ nat (bitlen a - 1))"
    using b1 by (simp add: power_int_def)
  also have "\<dots> \<le> of_int a" using lo by (simp only: of_int_le_iff)
  finally show "(2::rat) powi (bitlen a - 1) \<le> of_int a" .
  have "of_int a < (of_int (2 ^ nat (bitlen a)) :: rat)" using hi by (simp only: of_int_less_iff)
  also have "\<dots> = 2 powi (bitlen a)" using b1 by (simp add: power_int_def)
  finally show "of_int a < (2::rat) powi (bitlen a)" .
qed

lemma binexp_bounds:
  assumes "x \<noteq> 0"
  shows "2 powi (binexp x) \<le> \<bar>x\<bar>" and "\<bar>x\<bar> < 2 powi (binexp x + 1)"
proof -
  obtain a b where q: "quotient_of \<bar>x\<bar> = (a, b)" by (cases "quotient_of \<bar>x\<bar>")
  then have b: "0 < b" and x: "\<bar>x\<bar> = of_int a / of_int b"
    by (auto simp: quotient_of_denom_pos quotient_of_div)
  from assms have "0 < \<bar>x\<bar>" by simp
  with x b have a: "0 < a" by (simp add: zero_less_divide_iff)
  define e where "e = bitlen a - bitlen b"
  have bb: "0 < (of_int b :: rat)" using b by simp
  have up: "\<bar>x\<bar> < 2 powi (e + 1)"
  proof -
    have "of_int a < (2::rat) powi (bitlen a)" by (rule bitlen_powi_bounds[OF a])
    also have "\<dots> = 2 powi (e + 1) * 2 powi (bitlen b - 1)"
      by (simp add: e_def flip: power_int_add)
    also have "\<dots> \<le> 2 powi (e + 1) * of_int b"
      using bitlen_powi_bounds(1)[OF b] by (intro mult_left_mono) auto
    finally show ?thesis using bb by (simp add: x pos_divide_less_eq)
  qed
  have lo: "2 powi (e - 1) \<le> \<bar>x\<bar>"
  proof -
    have "2 powi (e - 1) * of_int b \<le> (2::rat) powi (e - 1) * 2 powi (bitlen b)"
      using bitlen_powi_bounds(2)[OF b] by (intro mult_left_mono) auto
    also have "\<dots> = 2 powi (bitlen a - 1)"
      by (simp add: e_def flip: power_int_add)
    also have "\<dots> \<le> of_int a" by (rule bitlen_powi_bounds[OF a])
    finally show ?thesis using bb by (simp add: x pos_le_divide_eq)
  qed
  have be: "binexp x = (if 2 powi e \<le> \<bar>x\<bar> then e else e - 1)"
    by (simp add: binexp_def q e_def Let_def)
  show "2 powi (binexp x) \<le> \<bar>x\<bar>" using lo by (simp add: be)
  show "\<bar>x\<bar> < 2 powi (binexp x + 1)" using up by (auto simp: be not_le)
qed

lemma binexp_unique:
  assumes "2 powi e \<le> \<bar>x\<bar>" and "\<bar>x\<bar> < 2 powi (e + 1)"
  shows "binexp x = e"
proof -
  have "(0::rat) < 2 powi e" by simp
  with assms(1) have "0 < \<bar>x\<bar>" by linarith
  then have x0: "x \<noteq> 0" by simp
  have mono: "m < n" if "(2::rat) powi m < 2 powi n" for m n :: int
  proof (rule ccontr)
    assume "\<not> m < n"
    then have "(2::rat) powi n \<le> 2 powi m" by (intro power_int_increasing) auto
    with that show False by simp
  qed
  have "(2::rat) powi e < 2 powi (binexp x + 1)"
    using assms(1) binexp_bounds(2)[OF x0] by (rule le_less_trans)
  moreover have "(2::rat) powi (binexp x) < 2 powi (e + 1)"
    using binexp_bounds(1)[OF x0] assms(2) by (rule le_less_trans)
  ultimately show ?thesis using mono[of e "binexp x + 1"] mono[of "binexp x" "e + 1"] by linarith
qed

lemma round_half_even_cases:
  "round_half_even x = \<lfloor>x\<rfloor> \<and> x - of_int \<lfloor>x\<rfloor> \<le> 1 / 2 \<or>
   round_half_even x = \<lfloor>x\<rfloor> + 1 \<and> 1 / 2 \<le> x - of_int \<lfloor>x\<rfloor>"
  by (auto simp: round_half_even_def Let_def)

lemma round_half_even_bounds:
  "\<bar>of_int (round_half_even x) - x\<bar> \<le> 1 / 2"
proof -
  have "of_int \<lfloor>x\<rfloor> \<le> x" "x < of_int \<lfloor>x\<rfloor> + 1" by linarith+
  with round_half_even_cases[of x] show ?thesis
    by (auto simp: abs_le_iff)
qed

lemma round_half_even_of_int [simp]: "round_half_even (of_int k) = k"
  by (simp add: round_half_even_def)

lemma round_half_even_mono:
  assumes "x \<le> y" shows "round_half_even x \<le> round_half_even y"
proof (cases "\<lfloor>x\<rfloor> = \<lfloor>y\<rfloor>")
  case True
  then show ?thesis using assms
    by (auto simp: round_half_even_def Let_def)
next
  case False
  with assms have "\<lfloor>x\<rfloor> + 1 \<le> \<lfloor>y\<rfloor>" using floor_mono[OF assms] by linarith
  moreover have "round_half_even x \<le> \<lfloor>x\<rfloor> + 1" using round_half_even_cases[of x] by auto
  moreover have "\<lfloor>y\<rfloor> \<le> round_half_even y" using round_half_even_cases[of y] by auto
  ultimately show ?thesis by linarith
qed

lemma fl_0 [simp]: "fl 0 = 0"
  by (simp add: fl_def)

lemma fl_scaled:
  assumes "x \<noteq> 0"
  shows "fl x = of_int (round_half_even (x / 2 powi (binexp x - 52))) * 2 powi (binexp x - 52)"
  using assms by (simp add: fl_def Let_def)

lemma fl_error:
  "\<bar>fl x - x\<bar> \<le> \<bar>x\<bar> / 2 ^ 53"
proof (cases "x = 0")
  case True
  then show ?thesis by simp
next
  case False
  define u :: rat where "u = 2 powi (binexp x - 52)"
  have u: "0 < u" by (simp add: u_def)
  have "fl x - x = (of_int (round_half_even (x / u)) - x / u) * u"
    using u by (simp add: fl_scaled[OF False] u_def[symmetric] left_diff_distrib)
  then have "\<bar>fl x - x\<bar> = \<bar>of_int (round_half_even (x / u)) - x / u\<bar> * u"
    using u by (simp add: abs_mult)
  also have "\<dots> \<le> 1 / 2 * u"
    using round_half_even_bounds[of "x / u"] u by (intro mult_right_mono) auto
  also have "\<dots> = 2 powi (binexp x) / 2 ^ 53"
    by (simp add: u_def power_int_diff)
  also have "\<dots> \<le> \<bar>x\<bar> / 2 ^ 53"
    using binexp_bounds(1)[OF False] by (simp add: divide_right_mono)
  finally show ?thesis .
qed

lemma fl_eq_0_iff [simp]: "fl x = 0 \<longleftrightarrow> x = 0"
proof
  assume h: "fl x = 0"
  show "x = 0"
  proof (rule ccontr)
    assume "x \<noteq> 0"
    then have "0 < \<bar>x\<bar>" by simp
    from fl_error[of x] h have "\<bar>x\<bar> \<le> \<bar>x\<bar> / 2 ^ 53" by simp
    with \<open>0 < \<bar>x\<bar>\<close> show False by (simp add: field_simps)
  qed
qed simp

lemma bytes_to_mb_eq_0_iff [simp]: "bytes_to_mb n = 0 \<longleftrightarrow> n = 0"
  by (simp add: bytes_to_mb_def)

lemma round_half_even_numeral [simp]: "round_half_even (numeral n) = numeral n"
  using round_half_even_of_int[of "numeral n"] by simp

lemma fl_pos_bounds:
  assumes "0 < x"
  shows "2 powi (binexp x) \<le> fl x" and "fl x \<le> 2 powi (binexp x + 1)"
proof -
  define u :: rat where "u = 2 powi (binexp x - 52)"
  have u: "0 < u" by (simp add: u_def)
  have x0: "x \<noteq> 0" using assms by simp
  have f: "fl x = of_int (round_half_even (x / u)) * u"
    by (simp add: fl_scaled[OF x0] u_def)
  have p52: "(2::rat) powi (binexp x) = 2 ^ 52 * u"
    by (simp add: u_def power_int_diff)
  have p53: "(2::rat) powi (binexp x + 1) = 2 ^ 53 * u"
    by (simp add: u_def power_int_diff power_int_add)
  have "2 ^ 52 * u \<le> x" using binexp_bounds(1)[OF x0] assms by (simp add: p52)
  then have "of_int (2 ^ 52) \<le> x / u" using u by (simp add: pos_le_divide_eq)
  from round_half_even_mono[OF this] have "2 ^ 52 \<le> round_half_even (x / u)" by simp
  then have "(of_int (2 ^ 52) :: rat) \<le> of_int (round_half_even (x / u))"
    by (simp only: of_int_le_iff)
  then show "2 powi (binexp x) \<le> fl x" using u by (simp add: p52 f)
  have "x \<le> 2 ^ 53 * u" using binexp_bounds(2)[OF x0] assms by (simp add: p53)
  then have "x / u \<le> of_int (2 ^ 53)" using u by (simp add: pos_divide_le_eq)
  from round_half_even_mono[OF this] have "round_half_even (x / u) \<le> 2 ^ 53" by simp
  then have "(of_int (round_half_even (x / u)) :: rat) \<le> of_int (2 ^ 53)"
    by (simp only: of_int_le_iff)
  then show "fl x \<le> 2 powi (binexp x + 1)" using u by (simp add: p53 f)
qed

lemma fl_nonneg: "0 \<le> x \<Longrightarrow> 0 \<le> fl x"
proof (cases "x = 0")
  case False
  assume "0 \<le> x"
  with False have "0 < x" by simp
  from fl_pos_bounds(1)[OF this] have "(2::rat) powi (binexp x) \<le> fl x" .
  moreover have "(0::rat) < 2 powi (binexp x)" by simp
  ultimately show ?thesis by linarith
qed simp

lemma fl_mono:
  assumes "0 \<le> x" and "x \<le> y"
  shows "fl x \<le> fl y"
proof (cases "x = 0")
  case True
  then show ?thesis using fl_nonneg[of y] assms by simp
next
  case False
  with assms have x: "0 < x" and y: "0 < y" by auto
  have "(2::rat) powi (binexp x) \<le> x" using binexp_bounds(1)[of x] x by simp
  also have "\<dots> \<le> y" by fact
  also have "\<dots> < 2 powi (binexp y + 1)" using binexp_bounds(2)[of y] y by simp
  finally have "(2::rat) powi (binexp x) < 2 powi (binexp y + 1)" .
  then have le: "binexp x \<le> binexp y"
  proof -
    have "binexp x < binexp y + 1"
    proof (rule ccontr)
      assume "\<not> binexp x < binexp y + 1"
      then have "(2::rat) powi (binexp y + 1) \<le> 2 powi (binexp x)"
        by (intro power_int_increasing) auto
      with \<open>(2::rat) powi (binexp x) < 2 powi (binexp y + 1)\<close> show False by simp
    qed
    then show ?thesis by simp
  qed
  show ?thesis
  proof (cases "binexp x = binexp y")
    case True
    define u :: rat where "u = 2 powi (binexp x - 52)"
    have u: "0 < u" by (simp add: u_def)
    have "x / u \<le> y / u" using assms(2) u by (simp add: divide_right_mono)
    from round_half_even_mono[OF this]
    have "(of_int (round_half_even (x / u)) :: rat) \<le> of_int (round_half_even (y / u))"
      by (simp only: of_int_le_iff)
    then have "of_int (round_half_even (x / u)) * u \<le> of_int (round_half_even (y / u)) * u"
      using u by (simp add: mult_right_mono)
    then show ?thesis using x y True by (simp add: fl_scaled u_def)
  next
    case False
    with le have "binexp x + 1 \<le> binexp y" by simp
    then have "(2::rat) powi (binexp x + 1) \<le> 2 powi (binexp y)"
      by (intro power_int_increasing) auto
    with fl_pos_bounds(2)[OF x] fl_pos_bounds(1)[OF y] show ?thesis by linarith
  qed
qed

lemma bytes_to_mb_nonneg: "0 \<le> bytes_to_mb n"
  by (simp add: bytes_to_mb_def fl_nonneg)

lemma bytes_to_mb_mono: "m \<le> n \<Longrightarrow> bytes_to_mb m \<le> bytes_to_mb n"
  unfolding bytes_to_mb_def by (rule fl_mono) (simp_all add: divide_right_mono)

lemma scaled_digits_mono: "0 \<le> x \<Longrightarrow> x \<le> y \<Longrightarrow> scaled_digits p x \<le> scaled_digits p y"
proof -
  assume "0 \<le> x" "x \<le> y"
  then have "\<bar>x\<bar> * 10 ^ p \<le> \<bar>y\<bar> * 10 ^ p" by (simp add: mult_right_mono)
  from round_half_even_mono[OF this] show ?thesis by (simp add: scaled_digits_def nat_mono)
qed


lemma round_half_even_0 [simp]: "round_half_even 0 = 0"
  using round_half_even_of_int[of 0] by simp



subsection \<open>Rounding errors of the reduction\<close>





subsection \<open>The branches of \<^verbatim>\<open>main\<close>\<close>

lemma main_import_fails:
  "\<not> import_ok e \<Longrightarrow>
   main e = \<lparr>exit_code = 1, stdout = missing_packages_lines, quant_calls = [],
             files_after = files e\<rparr>"
  by (simp add: main_def)

lemma main_input_missing:
  "import_ok e \<Longrightarrow> files e (input_model e) = None \<Longrightarrow>
   main e = \<lparr>exit_code = 1, stdout = input_missing_lines e, quant_calls = [],
             files_after = files e\<rparr>"
  by (simp add: main_def path_exists_def)

lemma main_library_raises:
  "import_ok e \<Longrightarrow> files e (input_model e) = Some b \<Longrightarrow> library_call e = (Some msg, fs') \<Longrightarrow>
   main e = \<lparr>exit_code = 1,
             stdout = input_report_lines e (bytes_to_mb (length b)) @
                      [failure_line (LibraryError msg)],
             quant_calls = [(input_model e, output_model e, QUInt8)], files_after = fs'\<rparr>"
  by (simp add: main_def path_exists_def getsize_def try_body_def library_call_def)

lemma main_output_missing:
  "import_ok e \<Longrightarrow> files e (input_model e) = Some b \<Longrightarrow> library_call e = (None, fs') \<Longrightarrow>
   fs' (output_model e) = None \<Longrightarrow>
   main e = \<lparr>exit_code = 1,
             stdout = input_report_lines e (bytes_to_mb (length b)) @
                      [failure_line (FileNotFoundError (output_model e))],
             quant_calls = [(input_model e, output_model e, QUInt8)], files_after = fs'\<rparr>"
  by (simp add: main_def path_exists_def getsize_def try_body_def library_call_def
      measure_output_def)

lemma main_input_empty:
  "import_ok e \<Longrightarrow> files e (input_model e) = Some [] \<Longrightarrow> library_call e = (None, fs') \<Longrightarrow>
   fs' (output_model e) = Some c \<Longrightarrow>
   main e = \<lparr>exit_code = 1,
             stdout = input_report_lines e 0 @ [failure_line ZeroDivisionError],
             quant_calls = [(input_model e, output_model e, QUInt8)], files_after = fs'\<rparr>"
  by (simp add: main_def path_exists_def getsize_def try_body_def library_call_def
      measure_output_def float_div_def bytes_to_mb_def)

lemma main_completes:
  "import_ok e \<Longrightarrow> files e (input_model e) = Some b \<Longrightarrow> b \<noteq> [] \<Longrightarrow>
   library_call e = (None, fs') \<Longrightarrow> fs' (output_model e) = Some c \<Longrightarrow>
   main e = \<lparr>exit_code = 0,
             stdout = input_report_lines e (bytes_to_mb (length b)) @
                      success_lines e (bytes_to_mb (length c))
                        (float_mul (float_sub 1
                           (fl (bytes_to_mb (length c) / bytes_to_mb (length b)))) 100),
             quant_calls = [(input_model e, output_model e, QUInt8)], files_after = fs'\<rparr>"
  by (simp add: main_def path_exists_def getsize_def try_body_def library_call_def
      measure_output_def float_div_def Let_def)

lemma exit_code_succeeds: "run_succeeds e \<Longrightarrow> exit_code (main e) = 0"
  by (auto simp: run_succeeds_def main_completes split: option.splits prod.splits)

lemma exit_code_fails: "\<not> run_succeeds e \<Longrightarrow> exit_code (main e) = 1"
proof (cases "import_ok e")
  case False
  then show ?thesis by (simp add: main_import_fails)
next
  case True
  assume n: "\<not> run_succeeds e"
  show ?thesis
  proof (cases "files e (input_model e)")
    case None
    with True show ?thesis by (simp add: main_input_missing)
  next
    case (Some b)
    obtain r fs' where lc: "library_call e = (r, fs')" by (cases "library_call e")
    show ?thesis
    proof (cases r)
      case (Some msg)
      with True \<open>files e (input_model e) = Some b\<close> lc show ?thesis
        by (simp add: main_library_raises)
    next
      case None
      note rn = this
      show ?thesis
      proof (cases "fs' (output_model e)")
        case None
        with True \<open>files e (input_model e) = Some b\<close> lc rn show ?thesis
          by (simp add: main_output_missing)
      next
        case (Some c)
        with n True \<open>files e (input_model e) = Some b\<close> lc rn have "b = []"
          by (simp add: run_succeeds_def)
        with True \<open>files e (input_model e) = Some b\<close> lc rn Some show ?thesis
          by (simp add: main_input_empty)
      qed
    qed
  qed
qed

lemma not_succeeds_iff:
  "\<not> run_succeeds e \<longleftrightarrow>
     \<not> import_ok e \<or> files e (input_model e) = None \<or> quantization_fails e"
  by (auto simp: run_succeeds_def quantization_fails_def split: option.splits prod.splits)

subsection \<open>Printed text\<close>

lemma line_in_stdout_text:
  "l \<in> set (stdout r) \<Longrightarrow> sublist l (stdout_text r)"
proof -
  have "l \<in> set ls \<Longrightarrow> sublist l (concat (map (\<lambda>s. s @ [c]) ls))" for ls :: "string list" and c
  proof (induction ls)
    case Nil
    then show ?case by simp
  next
    case (Cons a ls)
    show ?case
    proof (cases "l = a")
      case True
      have "sublist a ([] @ a @ ([c] @ concat (map (\<lambda>s. s @ [c]) ls)))"
        by (rule sublist_appendI)
      then show ?thesis using True by simp
    next
      case False
      with Cons have "sublist l (concat (map (\<lambda>s. s @ [c]) ls))" by simp
      then obtain ps ss where "concat (map (\<lambda>s. s @ [c]) ls) = ps @ l @ ss"
        by (auto simp: sublist_def)
      then have "concat (map (\<lambda>s. s @ [c]) (a # ls)) = (a @ [c] @ ps) @ l @ ss" by simp
      then show ?thesis unfolding sublist_def by blast
    qed
  qed
  then show "l \<in> set (stdout r) \<Longrightarrow> sublist l (stdout_text r)"
    by (simp add: stdout_text_def)
qed

lemma part_in_stdout_text:
  assumes "pre @ s @ post \<in> set (stdout r)"
  shows "sublist s (stdout_text r)"
proof -
  from line_in_stdout_text[OF assms] obtain ps ss where "stdout_text r = ps @ (pre @ s @ post) @ ss"
    by (auto simp: sublist_def)
  then have "stdout_text r = (ps @ pre) @ s @ (post @ ss)" by simp
  then show ?thesis unfolding sublist_def by blast
qed

subsection \<open>The sample environments\<close>

lemma repo_paths [simp]:
  "input_model (repo_env ok fs q) = repo_input"
  "output_model (repo_env ok fs q) = repo_output"
  by (simp_all add: input_model_def output_model_def models_dir_def project_root_def
      script_dir_def repo_env_def repo_script_def repo_input_def repo_output_def dirname_def
      sep_def)

lemma repo_env_sel [simp]:
  "import_ok (repo_env ok fs q) = ok"
  "files (repo_env ok fs q) = fs"
  "library_call (repo_env ok fs q) = q fs repo_input repo_output QUInt8"
  by (simp_all add: library_call_def) (simp_all add: repo_env_def)

lemma repo_input_neq_output [simp]: "repo_input \<noteq> repo_output" "repo_output \<noteq> repo_input"
  by (simp_all add: repo_input_def repo_output_def)

lemma zero_bytes_simps [simp]: "length (zero_bytes n) = n" "zero_bytes n = [] \<longleftrightarrow> n = 0"
  by (simp_all add: zero_bytes_def)

subsection \<open>The resolved paths\<close>

lemma join_path_relative:
  "b \<noteq> [] \<Longrightarrow> hd b \<noteq> sep \<Longrightarrow> p \<noteq> [] \<Longrightarrow> last p \<noteq> sep \<Longrightarrow>
   join_path p (b # bs) = join_path (p @ [sep] @ b) bs"
  by simp

lemma join_path_first:
  "b \<noteq> [] \<Longrightarrow> hd b \<noteq> sep \<Longrightarrow>
   join_path p (b # bs) =
     join_path (p @ (if p = [] \<or> last p = sep then [] else [sep]) @ b) bs"
  by simp

lemma models_dir_eq:
  "models_dir e =
     project_root e @ (if project_root e = [] \<or> last (project_root e) = sep then [] else [sep]) @
     ''app/src/main/assets/models''"
proof -
  define r where "r = project_root e @ (if project_root e = [] \<or> last (project_root e) = sep then [] else [sep])"
  have "models_dir e = join_path (r @ ''app'') [''src'', ''main'', ''assets'', ''models'']"
    unfolding models_dir_def r_def by (subst join_path_first) (simp_all add: sep_def)
  also have "\<dots> = join_path (r @ ''app/src'') [''main'', ''assets'', ''models'']"
    by (subst join_path_relative) (simp_all add: sep_def)
  also have "\<dots> = join_path (r @ ''app/src/main'') [''assets'', ''models'']"
    by (subst join_path_relative) (simp_all add: sep_def)
  also have "\<dots> = join_path (r @ ''app/src/main/assets'') [''models'']"
    by (subst join_path_relative) (simp_all add: sep_def)
  also have "\<dots> = r @ ''app/src/main/assets/models''"
    by (subst join_path_relative) (simp_all add: sep_def)
  finally show ?thesis by (simp add: r_def)
qed

lemma input_model_eq: "input_model e = models_dir e @ ''/comictextdetector.pt.onnx''"
  unfolding input_model_def
  by (subst join_path_relative) (simp_all add: models_dir_eq sep_def)

lemma output_model_eq: "output_model e = models_dir e @ ''/comictextdetector_quantized.onnx''"
  unfolding output_model_def
  by (subst join_path_relative) (simp_all add: models_dir_eq sep_def)

subsection \<open>The report of a completed run\<close>

lemma stdout_completes:
  assumes "import_ok e" and "files e (input_model e) = Some b" and "b \<noteq> []"
    and "library_call e = (None, fs')" and "fs' (output_model e) = Some c"
  shows "exit_code (main e) = 0"
    and "stdout (main e) ! 1 = ''   Size: '' @ format_f 1 (bytes_to_mb (length b)) @ '' MB''"
    and "stdout (main e) ! 5 = ''   Size: '' @ format_f 1 (bytes_to_mb (length c)) @ '' MB''"
    and "stdout (main e) ! 6 = ''   Reduction: '' @
           format_f 0 (float_mul (float_sub 1
             (fl (bytes_to_mb (length c) / bytes_to_mb (length b)))) 100) @ ''%''"
  by (simp_all add: main_completes[OF assms] input_report_lines_def success_lines_def)

lemma mb_values:
  "bytes_to_mb 1048576 = 1" "bytes_to_mb 2097152 = 2" "bytes_to_mb 524288 = 1 / 2"
proof -
  have "fl 1 = 1" "fl 2 = 2" "fl (1 / 2) = 1 / 2" by code_simp+
  then show "bytes_to_mb 1048576 = 1" "bytes_to_mb 2097152 = 2" "bytes_to_mb 524288 = 1 / 2"
    by (simp_all add: bytes_to_mb_def)
qed

lemma format_values:
  "format_f 1 1 = ''1.0''" "format_f 1 2 = ''2.0''" "format_f 1 (1 / 2) = ''0.5''"
  "scaled_digits 1 1 = 10" "scaled_digits 1 2 = 20" "scaled_digits 1 (1 / 2) = 5"
  by code_simp+

lemma format_values_Suc:
  "format_f (Suc 0) 1 = ''1.0''" "format_f (Suc 0) 2 = ''2.0''"
  "format_f (Suc 0) (1 / 2) = ''0.5''"
  "scaled_digits (Suc 0) 1 = 10" "scaled_digits (Suc 0) 2 = 20"
  "scaled_digits (Suc 0) (1 / 2) = 5"
  using format_values by simp_all

lemma reduction_values:
  "float_mul (float_sub 1 (fl 2)) 100 = - 100" "format_f 0 (- 100) = ''-100''"
  "float_mul (float_sub 1 (fl (1 / 2))) 100 = 50" "format_f 0 50 = ''50''"
  by code_simp+

subsection \<open>What a run takes from the library\<close>

lemma paths_ignore_library [simp]:
  "models_dir (e\<lparr>quantize_dynamic := q\<rparr>) = models_dir e"
  "input_model (e\<lparr>quantize_dynamic := q\<rparr>) = input_model e"
  "output_model (e\<lparr>quantize_dynamic := q\<rparr>) = output_model e"
  by (simp_all add: input_model_def output_model_def models_dir_def project_root_def
      script_dir_def)

lemma library_call_update [simp]:
  "library_call (e\<lparr>quantize_dynamic := q\<rparr>) = q (files e) (input_model e) (output_model e) QUInt8"
  by (simp add: library_call_def)

lemma try_body_library_call:
  "try_body e x =
     (case library_call e of
        (Some msg, fs') \<Rightarrow> (Inl (LibraryError msg), fs')
      | (None, fs') \<Rightarrow> (measure_output fs' (output_model e) x, fs'))"
  by (simp add: try_body_def library_call_def)

lemma main_depends_on_one_call:
  assumes "q (files e) (input_model e) (output_model e) QUInt8 = library_call e"
  shows "main (e\<lparr>quantize_dynamic := q\<rparr>) = main e"
proof -
  have "library_call (e\<lparr>quantize_dynamic := q\<rparr>) = library_call e"
    using assms by simp
  then show ?thesis
    by (simp add: main_def try_body_library_call input_missing_lines_def input_report_lines_def
        success_lines_def Let_def cong: sum.case_cong prod.case_cong option.case_cong)
qed

lemma main_ignores_library:
  assumes "\<not> import_ok e \<or> files e (input_model e) = None"
  shows "main (e\<lparr>quantize_dynamic := q\<rparr>) = main e"
  using assms
  by (auto simp: main_def path_exists_def input_missing_lines_def)

lemma files_after_call:
  assumes "import_ok e" and "files e (input_model e) \<noteq> None"
  shows "files_after (main e) = snd (library_call e)"
    and "quant_calls (main e) = [(input_model e, output_model e, QUInt8)]"
proof -
  from assms(2) obtain b where b: "files e (input_model e) = Some b" by auto
  obtain r fs' where lc: "library_call e = (r, fs')" by (cases "library_call e")
  have "files_after (main e) = fs' \<and> quant_calls (main e) = [(input_model e, output_model e, QUInt8)]"
  proof (cases r)
    case (Some msg)
    with assms(1) b lc show ?thesis by (simp add: main_library_raises)
  next
    case None
    note rn = this
    show ?thesis
    proof (cases "fs' (output_model e)")
      case None
      with assms(1) b lc rn show ?thesis by (simp add: main_output_missing)
    next
      case (Some c)
      show ?thesis
      proof (cases "b = []")
        case True
        with assms(1) b lc rn Some show ?thesis by (simp add: main_input_empty)
      next
        case False
        with assms(1) b lc rn Some show ?thesis by (simp add: main_completes)
      qed
    qed
  qed
  then show "files_after (main e) = snd (library_call e)"
    and "quant_calls (main e) = [(input_model e, output_model e, QUInt8)]"
    by (simp_all add: lc)
qed

section \<open>The claims\<close>

text \<open>
  C1. For every run, the exit status is 0 exactly when the run succeeds, and 1 when the
  import of the quantization library fails, when the input model file is absent, or when
  the quantization step fails; no other exit status occurs.
\<close>

theorem exit_code_characterised:
  "exit_code (main e) \<in> {0, 1} \<and>
   (exit_code (main e) = 0 \<longleftrightarrow> run_succeeds e) \<and>
   (exit_code (main e) = 1 \<longleftrightarrow>
      \<not> import_ok e \<or> files e (input_model e) = None \<or> quantization_fails e)"
proof (cases "run_succeeds e")
  case True
  then show ?thesis using exit_code_succeeds[OF True] not_succeeds_iff[of e] by simp
next
  case False
  then show ?thesis using exit_code_fails[OF False] not_succeeds_iff[of e] by simp
qed

theorem exit_code_characterised_witness:
  "run_succeeds (repo_env True (only_input 8) (writes_output 2)) \<and>
   exit_code (main (repo_env True (only_input 8) (writes_output 2))) = 0 \<and>
   quantization_fails (repo_env True (only_input 8) (raises ''bad model'')) \<and>
   exit_code (main (repo_env True (only_input 8) (raises ''bad model''))) = 1 \<and>
   exit_code (main (repo_env True no_files (writes_output 2))) = 1 \<and>
   exit_code (main (repo_env False (only_input 8) (writes_output 2))) = 1"
  using exit_code_characterised[of "repo_env True (only_input 8) (writes_output 2)"]
    exit_code_characterised[of "repo_env True (only_input 8) (raises ''bad model'')"]
    exit_code_characterised[of "repo_env True no_files (writes_output 2)"]
    exit_code_characterised[of "repo_env False (only_input 8) (writes_output 2)"]
  by (simp add: run_succeeds_def quantization_fails_def only_input_def writes_output_def
      raises_def no_files_def)

text \<open>
  C2, as amended. For every run in which the quantization library is imported and the input
  model file does not exist at the resolved input path, the program exits with status 1 and
  its printed output contains the expected input path, the download address and the
  directory to place the file in.

  As stated, without the condition on the import, the claim fails: when the import fails
  the run ends before the paths are resolved, and only the installation hint is printed
  (\<open>missing_input_unreported_without_library\<close>).
\<close>

theorem missing_input_reported:
  assumes "import_ok e" and "files e (input_model e) = None"
  shows "exit_code (main e) = 1 \<and>
         sublist (input_model e) (stdout_text (main e)) \<and>
         sublist download_url (stdout_text (main e)) \<and>
         sublist (models_dir e) (stdout_text (main e))"
proof -
  have m: "stdout (main e) = input_missing_lines e" "exit_code (main e) = 1"
    using assms by (simp_all add: main_input_missing)
  have "(cross_mark @ '' Input model not found: '') @ input_model e @ [] \<in> set (stdout (main e))"
    by (simp add: m input_missing_lines_def)
  then have 1: "sublist (input_model e) (stdout_text (main e))" by (rule part_in_stdout_text)
  have "''1. Go to: '' @ download_url @ [] \<in> set (stdout (main e))"
    by (simp add: m input_missing_lines_def)
  then have 2: "sublist download_url (stdout_text (main e))" by (rule part_in_stdout_text)
  have "''3. Place it in: '' @ models_dir e @ [] \<in> set (stdout (main e))"
    by (simp add: m input_missing_lines_def)
  then have 3: "sublist (models_dir e) (stdout_text (main e))" by (rule part_in_stdout_text)
  from m 1 2 3 show ?thesis by simp
qed

theorem missing_input_reported_witness:
  "import_ok (repo_env True no_files writes_nothing) \<and>
   files (repo_env True no_files writes_nothing)
     (input_model (repo_env True no_files writes_nothing)) = None \<and>
   exit_code (main (repo_env True no_files writes_nothing)) = 1 \<and>
   sublist repo_input (stdout_text (main (repo_env True no_files writes_nothing)))"
  using missing_input_reported[of "repo_env True no_files writes_nothing"]
  by (simp add: no_files_def)

theorem missing_input_unreported_without_library:
  "files (repo_env False no_files writes_nothing)
     (input_model (repo_env False no_files writes_nothing)) = None \<and>
   stdout (main (repo_env False no_files writes_nothing)) = missing_packages_lines \<and>
   \<not> sublist (input_model (repo_env False no_files writes_nothing))
       (stdout_text (main (repo_env False no_files writes_nothing)))"
proof -
  let ?e = "repo_env False no_files writes_nothing"
  have m: "main ?e = \<lparr>exit_code = 1, stdout = missing_packages_lines, quant_calls = [],
             files_after = files ?e\<rparr>"
    by (rule main_import_fails) simp
  have f: "files ?e (input_model ?e) = None"
    by (simp add: no_files_def)
  have "\<not> sublist repo_input (concat (map (\<lambda>s. s @ [CHR 0x0A]) missing_packages_lines))"
    by code_simp
  then have "\<not> sublist (input_model ?e) (stdout_text (main ?e))"
    by (simp add: m stdout_text_def)
  with f show ?thesis by (simp add: m)
qed

text \<open>
  C3, as amended. For every run with the library imported, a non-empty input file present
  and a quantization call that returns successfully and leaves a file at the output path,
  the program exits with status 0 and prints the size of each file in MB, rounded to one
  decimal place; the output size it prints is not greater than the input size it prints
  whenever the output file is not larger than the input file.

  As stated, the claim promises a printed output size strictly less than the printed input
  size after every successful call. The script prints what it measures and compares
  nothing: after a call that leaves an output of 2 MiB for an input of 1 MiB the run exits
  with status 0 and prints 1.0 MB, 2.0 MB and a reduction of -100%
  (\<open>output_size_not_smaller\<close>).
\<close>

theorem sizes_reported:
  assumes "import_ok e" and "files e (input_model e) = Some b" and "b \<noteq> []"
    and "library_call e = (None, fs')" and "fs' (output_model e) = Some c"
  shows "exit_code (main e) = 0 \<and>
         stdout (main e) ! 1 = ''   Size: '' @ format_f 1 (bytes_to_mb (length b)) @ '' MB'' \<and>
         stdout (main e) ! 5 = ''   Size: '' @ format_f 1 (bytes_to_mb (length c)) @ '' MB'' \<and>
         (length c \<le> length b \<longrightarrow>
            scaled_digits 1 (bytes_to_mb (length c)) \<le> scaled_digits 1 (bytes_to_mb (length b)))"
proof -
  have "scaled_digits 1 (bytes_to_mb (length c)) \<le> scaled_digits 1 (bytes_to_mb (length b))"
    if "length c \<le> length b"
    using that by (intro scaled_digits_mono bytes_to_mb_nonneg bytes_to_mb_mono)
  with stdout_completes(1-3)[OF assms] show ?thesis by simp
qed

theorem sizes_reported_witness:
  "import_ok (repo_env True (only_input 1048576) (writes_output 524288)) \<and>
   files (repo_env True (only_input 1048576) (writes_output 524288)) repo_input =
     Some (zero_bytes 1048576) \<and>
   zero_bytes 1048576 \<noteq> [] \<and>
   snd (library_call (repo_env True (only_input 1048576) (writes_output 524288))) repo_output =
     Some (zero_bytes 524288) \<and>
   exit_code (main (repo_env True (only_input 1048576) (writes_output 524288))) = 0 \<and>
   stdout (main (repo_env True (only_input 1048576) (writes_output 524288))) ! 1 =
     ''   Size: 1.0 MB'' \<and>
   stdout (main (repo_env True (only_input 1048576) (writes_output 524288))) ! 5 =
     ''   Size: 0.5 MB''"
proof -
  let ?e = "repo_env True (only_input 1048576) (writes_output 524288)"
  let ?fs = "\<lambda>p. if p = repo_output then Some (zero_bytes 524288) else only_input 1048576 p"
  have 1: "import_ok ?e" by simp
  have 2: "files ?e (input_model ?e) = Some (zero_bytes 1048576)" by (simp add: only_input_def)
  have 3: "zero_bytes 1048576 \<noteq> []" by simp
  have 4: "library_call ?e = (None, ?fs)" by (simp add: writes_output_def)
  have 5: "?fs (output_model ?e) = Some (zero_bytes 524288)" by simp
  from sizes_reported[OF 1 2 3 4 5] 2 4 show ?thesis
    by (simp add: mb_values format_values_Suc)
qed

theorem output_size_not_smaller:
  "import_ok (repo_env True (only_input 1048576) (writes_output 2097152)) \<and>
   files (repo_env True (only_input 1048576) (writes_output 2097152)) repo_input =
     Some (zero_bytes 1048576) \<and>
   library_call (repo_env True (only_input 1048576) (writes_output 2097152)) =
     (None, (\<lambda>p. if p = repo_output then Some (zero_bytes 2097152) else only_input 1048576 p)) \<and>
   exit_code (main (repo_env True (only_input 1048576) (writes_output 2097152))) = 0 \<and>
   stdout (main (repo_env True (only_input 1048576) (writes_output 2097152))) ! 1 =
     ''   Size: 1.0 MB'' \<and>
   stdout (main (repo_env True (only_input 1048576) (writes_output 2097152))) ! 5 =
     ''   Size: 2.0 MB'' \<and>
   stdout (main (repo_env True (only_input 1048576) (writes_output 2097152))) ! 6 =
     ''   Reduction: -100%'' \<and>
   \<not> scaled_digits 1 (bytes_to_mb 2097152) < scaled_digits 1 (bytes_to_mb 1048576)"
proof -
  let ?e = "repo_env True (only_input 1048576) (writes_output 2097152)"
  let ?fs = "\<lambda>p. if p = repo_output then Some (zero_bytes 2097152) else only_input 1048576 p"
  have 1: "import_ok ?e" by simp
  have 2: "files ?e (input_model ?e) = Some (zero_bytes 1048576)" by (simp add: only_input_def)
  have 3: "zero_bytes 1048576 \<noteq> []" by simp
  have 4: "library_call ?e = (None, ?fs)" by (simp add: writes_output_def)
  have 5: "?fs (output_model ?e) = Some (zero_bytes 2097152)" by simp
  from stdout_completes[OF 1 2 3 4 5] 2 4 show ?thesis
    by (simp add: mb_values format_values_Suc reduction_values)
qed



text \<open>
  C5, as amended. For every run in which the quantization library is imported and the input
  file exists, the library's quantization routine is invoked exactly once, with the input
  path \<^verbatim>\<open><root>/app/src/main/assets/models/comictextdetector.pt.onnx\<close>, the output path
  \<^verbatim>\<open><root>/app/src/main/assets/models/comictextdetector_quantized.onnx\<close> (one separator
  between the root and \<^verbatim>\<open>app\<close>, none added when the root ends with one) and the 8-bit
  unsigned weight type. The file system the run leaves is the one that a single application
  of the routine to the initial file system and these three arguments leaves; the run is
  the same for every routine with the same result at these arguments, so the routine is
  applied nowhere else; and this call is the one the run records.

  As stated, for every run in which the input file exists, the claim fails: when the import
  fails the routine is not applied and the file system stays as it was
  (\<open>no_call_without_library\<close>).
\<close>

theorem one_call_with_fixed_arguments:
  assumes "import_ok e" and "files e (input_model e) \<noteq> None"
  shows "files_after (main e) =
           snd (quantize_dynamic e (files e) (input_model e) (output_model e) QUInt8) \<and>
         (\<forall>q. q (files e) (input_model e) (output_model e) QUInt8 =
                quantize_dynamic e (files e) (input_model e) (output_model e) QUInt8 \<longrightarrow>
              main (e\<lparr>quantize_dynamic := q\<rparr>) = main e) \<and>
         quant_calls (main e) = [(input_model e, output_model e, QUInt8)] \<and>
         input_model e =
           project_root e @
           (if project_root e = [] \<or> last (project_root e) = sep then [] else [sep]) @
           ''app/src/main/assets/models/comictextdetector.pt.onnx'' \<and>
         output_model e =
           project_root e @
           (if project_root e = [] \<or> last (project_root e) = sep then [] else [sep]) @
           ''app/src/main/assets/models/comictextdetector_quantized.onnx''"
proof -
  have 1: "files_after (main e) =
      snd (quantize_dynamic e (files e) (input_model e) (output_model e) QUInt8)"
    using files_after_call(1)[OF assms] by (simp add: library_call_def)
  have 2: "main (e\<lparr>quantize_dynamic := q\<rparr>) = main e"
    if "q (files e) (input_model e) (output_model e) QUInt8 =
        quantize_dynamic e (files e) (input_model e) (output_model e) QUInt8" for q
    using that by (intro main_depends_on_one_call) (simp add: library_call_def)
  have 3: "quant_calls (main e) = [(input_model e, output_model e, QUInt8)]"
    by (rule files_after_call(2)[OF assms])
  from 1 2 3 show ?thesis by (simp add: input_model_eq output_model_eq models_dir_eq)
qed

theorem one_call_with_fixed_arguments_witness:
  "import_ok (repo_env True (only_input 8) (writes_output 2)) \<and>
   files (repo_env True (only_input 8) (writes_output 2))
     (input_model (repo_env True (only_input 8) (writes_output 2))) \<noteq> None \<and>
   files_after (main (repo_env True (only_input 8) (writes_output 2))) repo_output =
     Some (zero_bytes 2) \<and>
   files_after (main (repo_env True (only_input 8) (writes_output 2))) repo_input =
     Some (zero_bytes 8) \<and>
   quant_calls (main (repo_env True (only_input 8) (writes_output 2))) =
     [(''/repo/app/src/main/assets/models/comictextdetector.pt.onnx'',
       ''/repo/app/src/main/assets/models/comictextdetector_quantized.onnx'', QUInt8)]"
proof -
  let ?e = "repo_env True (only_input 8) (writes_output 2)"
  have q: "quantize_dynamic ?e = writes_output 2" by (simp add: repo_env_def)
  have 1: "import_ok ?e" by simp
  have 2: "files ?e (input_model ?e) \<noteq> None" by (simp add: only_input_def)
  from one_call_with_fixed_arguments[OF 1 2]
  have a: "files_after (main ?e) =
      snd (quantize_dynamic ?e (files ?e) (input_model ?e) (output_model ?e) QUInt8)"
    and c: "quant_calls (main ?e) = [(input_model ?e, output_model ?e, QUInt8)]"
    by blast+
  have "files_after (main ?e) =
      (\<lambda>p. if p = repo_output then Some (zero_bytes 2) else only_input 8 p)"
    using a by (simp add: q writes_output_def)
  then have 3: "files_after (main ?e) repo_output = Some (zero_bytes 2)"
    and 4: "files_after (main ?e) repo_input = Some (zero_bytes 8)"
    by (simp_all add: only_input_def)
  have 5: "quant_calls (main ?e) =
     [(''/repo/app/src/main/assets/models/comictextdetector.pt.onnx'',
       ''/repo/app/src/main/assets/models/comictextdetector_quantized.onnx'', QUInt8)]"
    using c by (simp add: repo_input_def repo_output_def)
  from 1 2 3 4 5 show ?thesis by blast
qed

theorem no_call_without_library:
  "files (repo_env False (only_input 8) (writes_output 2))
     (input_model (repo_env False (only_input 8) (writes_output 2))) = Some (zero_bytes 8) \<and>
   quant_calls (main (repo_env False (only_input 8) (writes_output 2))) = [] \<and>
   files_after (main (repo_env False (only_input 8) (writes_output 2))) = only_input 8 \<and>
   files_after (main (repo_env False (only_input 8) (writes_output 2))) repo_output = None \<and>
   snd (writes_output 2 (only_input 8) repo_input repo_output QUInt8) repo_output =
     Some (zero_bytes 2)"
  by (simp add: main_import_fails only_input_def writes_output_def)

text \<open>
  C6. For every exception raised by the library's quantization routine (in a run that
  calls it: the library imported, the input model present), the program prints the text of
  the exception verbatim, at the end of its last line, and exits with status 1.
\<close>

theorem library_exception_reported:
  assumes "import_ok e" and "files e (input_model e) = Some b"
    and "library_call e = (Some msg, fs')"
  shows "exit_code (main e) = 1 \<and>
         last (stdout (main e)) = [CHR 0x0A] @ cross_mark @ '' Quantization failed: '' @ msg \<and>
         sublist msg (stdout_text (main e))"
proof -
  have m: "main e = \<lparr>exit_code = 1,
             stdout = input_report_lines e (bytes_to_mb (length b)) @
                      [failure_line (LibraryError msg)],
             quant_calls = [(input_model e, output_model e, QUInt8)], files_after = fs'\<rparr>"
    using assms by (rule main_library_raises)
  have "([CHR 0x0A] @ cross_mark @ '' Quantization failed: '') @ msg @ [] \<in> set (stdout (main e))"
    by (simp add: m failure_line_def)
  then have "sublist msg (stdout_text (main e))" by (rule part_in_stdout_text)
  then show ?thesis by (simp add: m failure_line_def)
qed

theorem library_exception_reported_witness:
  "import_ok (repo_env True (only_input 8) (raises ''Invalid model'')) \<and>
   files (repo_env True (only_input 8) (raises ''Invalid model'')) repo_input =
     Some (zero_bytes 8) \<and>
   library_call (repo_env True (only_input 8) (raises ''Invalid model'')) =
     (Some ''Invalid model'', only_input 8) \<and>
   exit_code (main (repo_env True (only_input 8) (raises ''Invalid model''))) = 1 \<and>
   last (stdout (main (repo_env True (only_input 8) (raises ''Invalid model'')))) =
     [CHR 0x0A] @ cross_mark @ '' Quantization failed: Invalid model'' \<and>
   sublist ''Invalid model''
     (stdout_text (main (repo_env True (only_input 8) (raises ''Invalid model''))))"
  using library_exception_reported[of "repo_env True (only_input 8) (raises ''Invalid model'')"
      "zero_bytes 8" "''Invalid model''" "only_input 8"]
  by (simp add: only_input_def raises_def)

text \<open>
  C7. For every run in which the input model file is absent, the library's quantization
  routine is never invoked: the run ends at the existence check (or earlier, at the import
  check). The file system is left as it was, the run is the same whatever the routine is,
  and no call is recorded.
\<close>

theorem no_call_without_input:
  assumes "files e (input_model e) = None"
  shows "files_after (main e) = files e \<and>
         (\<forall>q. main (e\<lparr>quantize_dynamic := q\<rparr>) = main e) \<and>
         quant_calls (main e) = []"
proof -
  have 1: "files_after (main e) = files e" "quant_calls (main e) = []"
    using assms by (cases "import_ok e"; simp add: main_import_fails main_input_missing)+
  have 2: "main (e\<lparr>quantize_dynamic := q\<rparr>) = main e" for q
    using assms by (intro main_ignores_library) simp
  from 1 2 show ?thesis by simp
qed

theorem no_call_without_input_witness:
  "files (repo_env True no_files (writes_output 5))
     (input_model (repo_env True no_files (writes_output 5))) = None \<and>
   files_after (main (repo_env True no_files (writes_output 5))) = no_files \<and>
   main (repo_env True no_files (raises ''boom'')) =
     main (repo_env True no_files (writes_output 5)) \<and>
   quant_calls (main (repo_env True no_files (writes_output 5))) = []"
proof -
  let ?e = "repo_env True no_files (writes_output 5)"
  have f: "files ?e (input_model ?e) = None" by (simp add: no_files_def)
  have u: "?e\<lparr>quantize_dynamic := raises ''boom''\<rparr> = repo_env True no_files (raises ''boom'')"
    by (simp add: repo_env_def)
  from no_call_without_input[OF f] have
    "files_after (main ?e) = files ?e"
    "main (?e\<lparr>quantize_dynamic := raises ''boom''\<rparr>) = main ?e"
    "quant_calls (main ?e) = []"
    by blast+
  with f u show ?thesis by simp
qed

text \<open>
  C8. In every run the script itself treats the input model as read-only: it asks for its
  existence and its size only. The file system at the end of a run is the one the run
  started with, or, when the library was called, the one the library left; so the input
  path holds what it held before unless the library changed it.
\<close>

theorem input_model_not_written:
  "files_after (main e) = (if quant_calls (main e) = [] then files e else snd (library_call e)) \<and>
   (snd (library_call e) (input_model e) = files e (input_model e) \<longrightarrow>
      files_after (main e) (input_model e) = files e (input_model e))"
proof -
  obtain r fs' where lc: "library_call e = (r, fs')" by (cases "library_call e")
  have "files_after (main e) = (if quant_calls (main e) = [] then files e else fs')"
  proof (cases "import_ok e")
    case False
    then show ?thesis by (simp add: main_import_fails)
  next
    case True
    show ?thesis
    proof (cases "files e (input_model e)")
      case None
      with True show ?thesis by (simp add: main_input_missing)
    next
      case (Some b)
      show ?thesis
      proof (cases r)
        case (Some msg)
        with True \<open>files e (input_model e) = Some b\<close> lc show ?thesis
          by (simp add: main_library_raises)
      next
        case None
        note rn = this
        show ?thesis
        proof (cases "fs' (output_model e)")
          case None
          with True \<open>files e (input_model e) = Some b\<close> lc rn show ?thesis
            by (simp add: main_output_missing)
        next
          case (Some c)
          show ?thesis
          proof (cases "b = []")
            case True
            with \<open>import_ok e\<close> \<open>files e (input_model e) = Some b\<close> lc rn Some show ?thesis
              by (simp add: main_input_empty)
          next
            case False
            with \<open>import_ok e\<close> \<open>files e (input_model e) = Some b\<close> lc rn Some show ?thesis
              by (simp add: main_completes)
          qed
        qed
      qed
    qed
  qed
  then show ?thesis by (auto simp: lc)
qed

theorem input_model_not_written_witness:
  "snd (library_call (repo_env True (only_input 8) (writes_output 2))) repo_input =
     files (repo_env True (only_input 8) (writes_output 2)) repo_input \<and>
   files_after (main (repo_env True (only_input 8) (writes_output 2))) repo_input =
     Some (zero_bytes 8) \<and>
   files_after (main (repo_env True (only_input 8) (writes_output 2))) repo_output =
     Some (zero_bytes 2)"
proof -
  let ?e = "repo_env True (only_input 8) (writes_output 2)"
  have "run_succeeds ?e"
    by (simp add: run_succeeds_def only_input_def writes_output_def)
  then have "exit_code (main ?e) = 0" by (rule exit_code_succeeds)
  then have c: "quant_calls (main ?e) \<noteq> []"
    by (auto simp: main_def Let_def split: if_splits sum.splits prod.splits)
  from input_model_not_written[of ?e] c show ?thesis
    by (simp add: writes_output_def only_input_def)
qed

text \<open>
  C9. For every run that exits with status 0, the output model file exists at the output
  path when the program terminates: the size query of the output file stands inside the
  guarded block, so a missing output file ends the run with status 1.
\<close>

theorem exit_zero_output_exists:
  "exit_code (main e) = 0 \<Longrightarrow> files_after (main e) (output_model e) \<noteq> None"
proof -
  assume z: "exit_code (main e) = 0"
  have s: "run_succeeds e"
  proof (rule ccontr)
    assume "\<not> run_succeeds e"
    from exit_code_fails[OF this] z show False by simp
  qed
  then obtain b fs' c where "import_ok e" "files e (input_model e) = Some b" "b \<noteq> []"
    "library_call e = (None, fs')" "fs' (output_model e) = Some c"
    by (auto simp: run_succeeds_def split: option.splits prod.splits)
  then show ?thesis by (simp add: main_completes)
qed

theorem exit_zero_output_exists_witness:
  "exit_code (main (repo_env True (only_input 8) (writes_output 2))) = 0 \<and>
   files_after (main (repo_env True (only_input 8) (writes_output 2))) repo_output \<noteq> None"
proof -
  have "run_succeeds (repo_env True (only_input 8) (writes_output 2))"
    by (simp add: run_succeeds_def only_input_def writes_output_def)
  then have z: "exit_code (main (repo_env True (only_input 8) (writes_output 2))) = 0"
    by (rule exit_code_succeeds)
  from exit_zero_output_exists[OF z] z show ?thesis by simp
qed

text \<open>
  C10. For every run whose input file exists but has size zero, the exit status is not 0
  (it is 1), even if the quantization call itself succeeds: then the division by the zero
  input size raises, and the handler reports it as a quantization failure.
\<close>

theorem empty_input_exits_nonzero:
  assumes "files e (input_model e) = Some []"
  shows "exit_code (main e) = 1 \<and>
         (\<forall>fs' c. import_ok e \<and> library_call e = (None, fs') \<and> fs' (output_model e) = Some c \<longrightarrow>
            last (stdout (main e)) = failure_line ZeroDivisionError)"
proof -
  have "\<not> run_succeeds e" using assms by (simp add: run_succeeds_def)
  then have "exit_code (main e) = 1" by (rule exit_code_fails)
  moreover have "last (stdout (main e)) = failure_line ZeroDivisionError"
    if "import_ok e" "library_call e = (None, fs')" "fs' (output_model e) = Some c" for fs' c
    using that assms by (simp add: main_input_empty)
  ultimately show ?thesis by blast
qed

theorem empty_input_exits_nonzero_witness:
  "files (repo_env True (only_input 0) (writes_output 2))
     (input_model (repo_env True (only_input 0) (writes_output 2))) = Some [] \<and>
   exit_code (main (repo_env True (only_input 0) (writes_output 2))) = 1 \<and>
   last (stdout (main (repo_env True (only_input 0) (writes_output 2)))) =
     failure_line ZeroDivisionError"
proof -
  let ?e = "repo_env True (only_input 0) (writes_output 2)"
  have f: "files ?e (input_model ?e) = Some []"
    by (simp add: only_input_def zero_bytes_def)
  have l: "library_call ?e = (None, (\<lambda>p. if p = repo_output then Some (zero_bytes 2) else only_input 0 p))"
    by (simp add: writes_output_def)
  from empty_input_exits_nonzero[OF f] f l show ?thesis by simp
qed

end
